theory Spec2Isabelle
  imports Complex_Main
begin

section \<open>Bayesian linear regression with evidence approximation\<close>

text \<open>
  A shallow embedding of \<^verbatim>\<open>src/bayesian_regression.py\<close> (class
  \<^verbatim>\<open>BayesianRegression\<close>), read as Python 3 (\<^verbatim>\<open>/\<close> is true division).

  Conventions of the model:
  \<^item> a one-dimensional array is a list of numbers, a two-dimensional array the list of
    its rows; arrays are rectangular, as numpy's are. An array with no rows carries no
    column count in this representation.
  \<^item> numpy's float64 numbers are modelled by the real numbers: rounding, infinities and
    NaN are outside the model. Where numpy divides a float by zero it warns and goes on
    with a non-finite value, and likewise for the logarithm of a number that is not
    positive; so the theorems about numeric results assume that the denominators
    involved are not zero, and state a logarithm only of a positive number.
  \<^item> every exception the code can raise is a value \<open>Inl e\<close> of the result.
  \<^item> the factorization routine \<^verbatim>\<open>np.linalg.svd\<close>, the two random draws of
    \<^verbatim>\<open>np.random.random(2)\<close> and the module-level global named \<^verbatim>\<open>Y\<close> (if there is
    one) are inputs of the functions that use them.
\<close>

subsection \<open>Values and errors\<close>

type_synonym vec = "real list"
type_synonym mat = "real list list"

text \<open>
  The first seven are the Python exceptions that the code and the library calls it makes
  can raise. The last four are the error kinds named by the specification; no statement
  of the source raises any of them.
\<close>

datatype error =
    AttributeError | NameError | UnboundLocalError | ZeroDivisionError
  | ValueError | TypeError | LinAlgError
  | ShapeError | InvalidArgument | NumericalError | NotFittedError

text \<open>A scalar is a Python \<^verbatim>\<open>int\<close> (the constructor stores \<^verbatim>\<open>0\<close>) or a numpy float.\<close>

datatype num = PyInt int | Float64 real

text \<open>What an attribute such as \<^verbatim>\<open>w_mu\<close> can hold: a scalar, a vector or a matrix.\<close>

datatype pyval = Num num | Arr1 vec | Arr2 mat

fun num_val :: "num \<Rightarrow> real" where
  "num_val (PyInt i) = real_of_int i"
| "num_val (Float64 r) = r"

definition bind_err :: "error + 'a \<Rightarrow> ('a \<Rightarrow> error + 'b) \<Rightarrow> error + 'b" where
  "bind_err r f = (case r of Inl e \<Rightarrow> Inl e | Inr a \<Rightarrow> f a)"

text \<open>
  \<^verbatim>\<open>a / b\<close> on scalars. Two Python ints raise on a zero divisor; as soon as a numpy
  float takes part numpy computes the quotient without raising.
\<close>

fun py_truediv :: "num \<Rightarrow> num \<Rightarrow> error + real" where
  "py_truediv (PyInt a) (PyInt b) =
     (if b = 0 then Inl ZeroDivisionError else Inr (real_of_int a / real_of_int b))"
| "py_truediv a b = Inr (num_val a / num_val b)"

subsection \<open>The array operations the code calls\<close>

text \<open>\<^verbatim>\<open>np.dot\<close> of two vectors: the inner product; the lengths must agree.\<close>

definition dot_vv :: "vec \<Rightarrow> vec \<Rightarrow> error + real" where
  "dot_vv a b =
     (if length a = length b then Inr (sum_list (map2 (*) a b)) else Inl ValueError)"

text \<open>\<^verbatim>\<open>np.dot\<close> of a matrix and a vector: every row has as many entries as the vector.\<close>

definition dot_mv :: "mat \<Rightarrow> vec \<Rightarrow> error + vec" where
  "dot_mv A x =
     (if list_all (\<lambda>row. length row = length x) A
      then Inr (map (\<lambda>row. sum_list (map2 (*) row x)) A)
      else Inl ValueError)"

text \<open>\<^verbatim>\<open>np.dot\<close> of two matrices: every row of the first has as many entries as the second has rows.\<close>

definition dot_mm :: "mat \<Rightarrow> mat \<Rightarrow> error + mat" where
  "dot_mm A B =
     (if list_all (\<lambda>row. length row = length B) A
      then Inr (map (\<lambda>row. map (\<lambda>col. sum_list (map2 (*) row col)) (transpose B)) A)
      else Inl ValueError)"

text \<open>\<^verbatim>\<open>np.diag\<close> of a vector: the square matrix with the vector on its diagonal.\<close>

definition np_diag :: "vec \<Rightarrow> mat" where
  "np_diag x =
     map (\<lambda>i. map (\<lambda>j. if i = j then x ! i else 0) [0..<length x]) [0..<length x]"

text \<open>
  \<^verbatim>\<open>a - b\<close> on two vectors, with numpy's broadcasting: equal lengths subtract
  entry by entry, a vector of length one is stretched, anything else raises.
\<close>

definition np_sub :: "vec \<Rightarrow> vec \<Rightarrow> error + vec" where
  "np_sub a b =
     (if length a = length b then Inr (map2 (-) a b)
      else if length a = 1 then Inr (map (\<lambda>y. hd a - y) b)
      else if length b = 1 then Inr (map (\<lambda>x. x - hd b) a)
      else Inl ValueError)"

text \<open>\<^verbatim>\<open>np.mean\<close> of a vector.\<close>

definition np_mean :: "vec \<Rightarrow> real" where
  "np_mean x = sum_list x / real (length x)"

text \<open>The number of columns, the second component of \<^verbatim>\<open>np.shape\<close>.\<close>

definition ncols :: "mat \<Rightarrow> nat" where
  "ncols A = (case A of [] \<Rightarrow> 0 | row # _ \<Rightarrow> length row)"

text \<open>
  \<^verbatim>\<open>np.dot(x, w)\<close> for a matrix \<open>x\<close> and whatever the attribute \<^verbatim>\<open>w_mu\<close> holds:
  a scalar multiplies every entry, a vector or a matrix is multiplied as usual.
\<close>

fun np_dot_mat :: "mat \<Rightarrow> pyval \<Rightarrow> error + pyval" where
  "np_dot_mat x (Num k) = Inr (Arr2 (map (map (\<lambda>a. a * num_val k)) x))"
| "np_dot_mat x (Arr1 w) = bind_err (dot_mv x w) (\<lambda>r. Inr (Arr1 r))"
| "np_dot_mat x (Arr2 W) = bind_err (dot_mm x W) (\<lambda>r. Inr (Arr2 r))"

subsection \<open>The model object\<close>

text \<open>
  The instance attributes, \<^verbatim>\<open>self.X\<close> as \<open>self_X\<close> and so on. The attribute
  \<^verbatim>\<open>diag\<close> does not exist until \<^verbatim>\<open>_weights_posterior_params\<close> assigns it.
  \<open>self_v\<close> holds the third array returned by \<^verbatim>\<open>np.linalg.svd\<close>, whose rows are
  the right singular vectors (a \<open>k \<times> m\<close> array).
\<close>

record model =
  self_X :: mat
  self_mu_X :: vec
  self_Y :: vec
  self_mu_Y :: real
  self_thresh :: real
  self_u :: mat
  self_d :: vec
  self_v :: mat
  self_alpha :: num
  self_beta :: num
  self_w_mu :: pyval
  self_w_beta :: pyval
  self_diag :: "vec option"

text \<open>
  \<^verbatim>\<open>_center\<close>, one function for each branch of its test \<^verbatim>\<open>len(x.shape) > 1\<close>:
  a matrix loses its column means, a vector its mean.
\<close>

definition center_mat :: "mat \<Rightarrow> mat \<times> vec" where
  "center_mat x =
     (let mu = map np_mean (transpose x) in (map (\<lambda>row. map2 (-) row mu) x, mu))"

definition center_vec :: "vec \<Rightarrow> vec \<times> real" where
  "center_vec x = (let mu = np_mean x in (map (\<lambda>a. a - np_mean x) x, mu))"

text \<open>
  \<^verbatim>\<open>__init__\<close>: center \<open>X\<close>, center \<open>Y\<close>, factorize the centered \<open>X\<close>, store zeros.
  \<open>svd\<close> stands for \<^verbatim>\<open>np.linalg.svd(_, full_matrices = False)\<close>, which returns the
  three arrays or raises.
\<close>

definition init :: "(mat \<Rightarrow> error + mat \<times> vec \<times> mat) \<Rightarrow> mat \<Rightarrow> vec \<Rightarrow> real \<Rightarrow> error + model" where
  "init svd X Y thresh =
     (let (cX, mu_X) = center_mat X;
          (cY, mu_Y) = center_vec Y
      in bind_err (svd cX) (\<lambda>(u, d, v).
           Inr \<lparr> self_X = cX, self_mu_X = mu_X, self_Y = cY, self_mu_Y = mu_Y,
                 self_thresh = thresh, self_u = u, self_d = d, self_v = v,
                 self_alpha = PyInt 0, self_beta = PyInt 0,
                 self_w_mu = Num (PyInt 0), self_w_beta = Num (PyInt 0),
                 self_diag = None \<rparr>))"

subsection \<open>Posterior and predictive parameters\<close>

text \<open>\<^verbatim>\<open>_weights_posterior_params\<close> (lines 87 to 92); it also assigns \<^verbatim>\<open>self.diag\<close>.\<close>

definition weights_posterior_params :: "model \<Rightarrow> num \<Rightarrow> num \<Rightarrow> error + model \<times> vec \<times> mat" where
  "weights_posterior_params self alpha beta =
     bind_err (dot_mm (transpose (self_X self)) (self_X self)) (\<lambda>XtX.
       let precision = map (map (\<lambda>a. num_val beta * a + num_val alpha)) XtX in
       bind_err (py_truediv alpha beta) (\<lambda>r.
         let diag = map (\<lambda>s. s / (s ^ 2 + r)) (self_d self);
             self' = self \<lparr> self_diag := Some diag \<rparr>
         in bind_err (dot_mm (transpose (self_v self)) (np_diag diag)) (\<lambda>p1.
              bind_err (dot_mv (transpose (self_u self)) (self_Y self)) (\<lambda>p2.
                bind_err (dot_mv p1 p2) (\<lambda>w_mu. Inr (self', w_mu, precision))))))"

text \<open>The comprehension of line 128: one variance for each row, in order.\<close>

fun var_rows :: "mat \<Rightarrow> num \<Rightarrow> mat \<Rightarrow> error + vec" where
  "var_rows S beta [] = Inr []"
| "var_rows S beta (u # rest) =
     bind_err (dot_mv S u) (\<lambda>Su.
       bind_err (dot_vv u Su) (\<lambda>q.
         bind_err (var_rows S beta rest) (\<lambda>vs. Inr ((1 + q) / num_val beta # vs))))"

text \<open>\<^verbatim>\<open>_pred_dist_params\<close> (lines 125 to 129). The argument \<open>w_precision\<close> is not read.\<close>

definition pred_dist_params ::
    "model \<Rightarrow> num \<Rightarrow> num \<Rightarrow> mat \<Rightarrow> pyval \<Rightarrow> pyval \<Rightarrow> error + pyval \<times> vec" where
  "pred_dist_params self alpha beta x w_mu w_precision =
     bind_err (np_dot_mat x w_mu) (\<lambda>mu_pred.
       bind_err (py_truediv alpha beta) (\<lambda>r.
         let d = map (\<lambda>s. 1 / (s ^ 2 + r)) (self_d self) in
         bind_err (dot_mm (transpose (self_v self)) (np_diag d)) (\<lambda>t.
           bind_err (dot_mm t (self_v self)) (\<lambda>S.
             bind_err (var_rows S beta x) (\<lambda>var_pred. Inr (mu_pred, var_pred))))))"

text \<open>\<^verbatim>\<open>predict\<close>; its second argument \<open>Y\<close> defaults to \<^verbatim>\<open>None\<close>.\<close>

definition predict :: "model \<Rightarrow> mat \<Rightarrow> 'y option \<Rightarrow> error + pyval \<times> vec" where
  "predict self X Y =
     pred_dist_params self (self_alpha self) (self_beta self) X (self_w_mu self) (self_w_beta self)"

subsection \<open>Evidence approximation\<close>

text \<open>
  Reading the name \<^verbatim>\<open>Y\<close> inside \<^verbatim>\<open>_evidence_approx\<close>: the function never assigns
  it, so it is the module-level global of that name, and a \<^verbatim>\<open>NameError\<close> without one.
\<close>

definition global_Y :: "vec option \<Rightarrow> error + vec" where
  "global_Y gY = (case gY of None \<Rightarrow> Inl NameError | Some y \<Rightarrow> Inr y)"

text \<open>
  Lines 162 to 165: the mean of the weights' posterior. \<open>d\<close> is the vector of squared
  singular values.
\<close>

definition iter_mu :: "vec option \<Rightarrow> model \<Rightarrow> real \<Rightarrow> real \<Rightarrow> error + vec" where
  "iter_mu gY self alpha beta =
     bind_err (dot_mm (transpose (self_v self))
                 (np_diag (map (\<lambda>s. s / (s ^ 2 + alpha / beta)) (self_d self)))) (\<lambda>p1_mu.
       bind_err (global_Y gY) (\<lambda>Y.
         bind_err (dot_mv (transpose (self_u self)) Y) (\<lambda>p2_mu.
           dot_mv p1_mu p2_mu)))"

text \<open>
  Lines 167 to 182: the update of \<open>alpha\<close> and \<open>beta\<close>. The third component is the
  binding of the local variable \<^verbatim>\<open>error\<close>, which only the fixed-point branch assigns.
\<close>

definition hyper_update ::
    "vec option \<Rightarrow> model \<Rightarrow> string \<Rightarrow> nat \<Rightarrow> nat \<Rightarrow> real \<Rightarrow> real \<Rightarrow> vec \<Rightarrow> vec \<Rightarrow> vec option
      \<Rightarrow> error + real \<times> real \<times> vec option" where
  "hyper_update gY self method n m alpha beta d mu error =
     (if method = ''fixed-point'' then
        let gamma = sum_list (map (\<lambda>dd. beta * dd / (beta * dd + alpha)) d) in
        bind_err (dot_vv mu mu) (\<lambda>mm.
          let alpha' = gamma / mm in
          bind_err (dot_mv (self_X self) mu) (\<lambda>Xmu.
            bind_err (np_sub (self_Y self) Xmu) (\<lambda>error'.
              bind_err (dot_vv error' error') (\<lambda>ee.
                Inr (alpha', (real n - gamma) / ee, Some error')))))
      else if method = ''EM'' then
        bind_err (dot_vv mu mu) (\<lambda>mm.
          let alpha' = real m / (mm + sum_list (map (\<lambda>dd. 1 / (beta * dd + alpha)) d)) in
          bind_err (global_Y gY) (\<lambda>Y.
            bind_err (dot_mv (self_X self) mu) (\<lambda>Xmu.
              bind_err (np_sub Y Xmu) (\<lambda>err.
                bind_err (dot_vv err err) (\<lambda>ee.
                  Inr (alpha',
                       real n / (ee + sum_list (map (\<lambda>dd. dd / (beta * dd + alpha')) d)),
                       error))))))
      else Inr (alpha, beta, error))"

text \<open>
  Lines 185 and 186: the log-likelihood, from the updated \<open>alpha\<close> and \<open>beta\<close>.
  Reading the local variable \<^verbatim>\<open>error\<close> before any assignment to it raises.
\<close>

definition log_like_of ::
    "nat \<Rightarrow> nat \<Rightarrow> real \<Rightarrow> real \<Rightarrow> vec \<Rightarrow> vec \<Rightarrow> vec option \<Rightarrow> error + real" where
  "log_like_of n m alpha beta d mu error =
     (let normaliser = real m / 2 * ln alpha + real n / 2 * ln beta
                        - 1 / 2 * sum_list (map (\<lambda>dd. ln (beta * dd + alpha)) d) in
      bind_err (dot_vv mu mu) (\<lambda>mm.
        bind_err (case error of None \<Rightarrow> Inl UnboundLocalError | Some e \<Rightarrow> Inr e) (\<lambda>e.
          bind_err (dot_vv e e) (\<lambda>ee.
            Inr (normaliser - alpha / 2 * mm - beta / 2 * ee)))))"

text \<open>One pass through the loop body up to line 186.\<close>

definition ea_iteration ::
    "vec option \<Rightarrow> model \<Rightarrow> string \<Rightarrow> real \<Rightarrow> real \<Rightarrow> vec option
      \<Rightarrow> error + real \<times> real \<times> vec option \<times> real" where
  "ea_iteration gY self method alpha beta error =
     (let n = length (self_X self); m = ncols (self_X self);
          d = map (\<lambda>s. s ^ 2) (self_d self) in
      bind_err (iter_mu gY self alpha beta) (\<lambda>mu.
        bind_err (hyper_update gY self method n m alpha beta d mu error) (\<lambda>(alpha', beta', error').
          bind_err (log_like_of n m alpha' beta' d mu error') (\<lambda>log_like.
            Inr (alpha', beta', error', log_like)))))"

text \<open>
  The loop \<^verbatim>\<open>for i in range(max_iter)\<close> with its \<^verbatim>\<open>break\<close>: the first argument
  counts the passes that remain, \<open>i\<close> is the loop variable.
\<close>

fun ea_loop ::
    "nat \<Rightarrow> vec option \<Rightarrow> model \<Rightarrow> string \<Rightarrow> nat \<Rightarrow> real \<Rightarrow> real \<Rightarrow> vec option \<Rightarrow> real list
      \<Rightarrow> error + real \<times> real" where
  "ea_loop 0 gY self method i alpha beta error log_likes = Inr (alpha, beta)"
| "ea_loop (Suc k) gY self method i alpha beta error log_likes =
     (case ea_iteration gY self method alpha beta error of
        Inl e \<Rightarrow> Inl e
      | Inr (alpha', beta', error', log_like) \<Rightarrow>
          let log_likes' = log_likes @ [log_like] in
          if i \<ge> 1 \<and> last log_likes' - last (butlast log_likes') < self_thresh self
          then Inr (alpha', beta')
          else ea_loop k gY self method (Suc i) alpha' beta' error' log_likes')"

text \<open>
  \<^verbatim>\<open>_evidence_approx\<close>: \<open>rnd\<close> is the pair drawn by \<^verbatim>\<open>np.random.random(2)\<close>.
  Lines 195 and 196 store the result.
\<close>

definition evidence_approx ::
    "vec option \<Rightarrow> real \<times> real \<Rightarrow> model \<Rightarrow> int \<Rightarrow> string \<Rightarrow> error + model" where
  "evidence_approx gY rnd self max_iter method =
     bind_err (ea_loop (nat max_iter) gY self method 0 (fst rnd) (snd rnd) None [])
       (\<lambda>(alpha, beta). Inr (self \<lparr> self_alpha := Float64 alpha, self_beta := Float64 beta \<rparr>))"

subsection \<open>Fitting\<close>

text \<open>
  The names the class body defines, and the names set on the instance: those that
  \<^verbatim>\<open>__init__\<close> assigns, and \<^verbatim>\<open>diag\<close> once \<^verbatim>\<open>_weights_posterior_params\<close>
  has assigned it.
\<close>

definition class_attributes :: "string list" where
  "class_attributes =
     [''__init__'', ''_center'', ''_weights_posterior_params'', ''_pred_dist_params'',
      ''_evidence_approx'', ''fit'', ''predict'', ''predict_mean'']"

definition instance_attributes :: "model \<Rightarrow> string list" where
  "instance_attributes self =
     [''X'', ''mu_X'', ''Y'', ''mu_Y'', ''thresh'', ''u'', ''d'', ''v'',
      ''alpha'', ''beta'', ''w_mu'', ''w_beta'']
     @ (case self_diag self of None \<Rightarrow> [] | Some _ \<Rightarrow> [''diag''])"

text \<open>
  The call \<^verbatim>\<open>self.<name>(max_iter = ..., method = ...)\<close>: the attribute is looked up
  first. Only \<^verbatim>\<open>_evidence_approx\<close> takes these two keywords; any other attribute
  that exists is not callable this way; a name that does not exist raises
  \<^verbatim>\<open>AttributeError\<close>.
\<close>

definition call_method ::
    "vec option \<Rightarrow> real \<times> real \<Rightarrow> model \<Rightarrow> string \<Rightarrow> int \<Rightarrow> string \<Rightarrow> error + model" where
  "call_method gY rnd self name max_iter method =
     (if name = ''_evidence_approx'' then evidence_approx gY rnd self max_iter method
      else if name \<in> set class_attributes \<union> set (instance_attributes self) then Inl TypeError
      else Inl AttributeError)"

text \<open>
  \<^verbatim>\<open>fit\<close> (lines 204 and 207). Its defaults are \<^verbatim>\<open>"fixed_point"\<close> and \<^verbatim>\<open>100\<close>.
\<close>

definition fit_default_method :: string where
  "fit_default_method = ''fixed_point''"

definition fit_default_iterations :: int where
  "fit_default_iterations = 100"

definition fit ::
    "vec option \<Rightarrow> real \<times> real \<Rightarrow> model \<Rightarrow> string \<Rightarrow> int \<Rightarrow> error + model" where
  "fit gY rnd self evidence_approx_method iterations =
     bind_err (call_method gY rnd self ''_fixed_point_evidence_approx''
                 iterations evidence_approx_method) (\<lambda>self1.
       bind_err (weights_posterior_params self1 (self_alpha self1) (self_beta self1))
         (\<lambda>(self2, w_mu, precision).
            Inr (self2 \<lparr> self_w_mu := Arr1 w_mu, self_w_beta := Arr2 precision \<rparr>)))"

subsection \<open>Shapes\<close>

text \<open>A matrix of \<open>p\<close> rows with \<open>q\<close> entries each.\<close>

definition has_shape :: "mat \<Rightarrow> nat \<Rightarrow> nat \<Rightarrow> bool" where
  "has_shape A p q = (length A = p \<and> list_all (\<lambda>row. length row = q) A)"

section \<open>The formulas of the specification\<close>

text \<open>
  These definitions follow the words of the specification, entry by entry and with sums
  over indices, so that they can be compared with what the code computes by array
  operations.
\<close>

subsection \<open>The fixed-point update and the log-evidence\<close>

text \<open>\<open>gamma\<close>: the sum over the singular values \<open>d\<close> of \<open>(beta d\<^sup>2) / (beta d\<^sup>2 + alpha)\<close>.\<close>

definition spec_gamma :: "vec \<Rightarrow> real \<Rightarrow> real \<Rightarrow> real" where
  "spec_gamma ds alpha beta =
     (\<Sum>i<length ds. beta * (ds ! i) ^ 2 / (beta * (ds ! i) ^ 2 + alpha))"

text \<open>The squared norm of the mean.\<close>

definition spec_sq_norm :: "vec \<Rightarrow> real" where
  "spec_sq_norm mu = (\<Sum>j<length mu. (mu ! j) ^ 2)"

text \<open>The residuals between the response and the design matrix applied to the mean.\<close>

definition spec_residual :: "mat \<Rightarrow> vec \<Rightarrow> vec \<Rightarrow> vec" where
  "spec_residual X Y mu =
     map (\<lambda>i. Y ! i - (\<Sum>j<length mu. X ! i ! j * mu ! j)) [0..<length X]"

text \<open>The sum of their squares.\<close>

definition spec_rss :: "mat \<Rightarrow> vec \<Rightarrow> vec \<Rightarrow> real" where
  "spec_rss X Y mu = (\<Sum>i<length X. (Y ! i - (\<Sum>j<length mu. X ! i ! j * mu ! j)) ^ 2)"

text \<open>New \<open>alpha\<close>: \<open>gamma\<close> divided by the squared norm of the mean.\<close>

definition spec_fixed_point_alpha :: "vec \<Rightarrow> real \<Rightarrow> real \<Rightarrow> vec \<Rightarrow> real" where
  "spec_fixed_point_alpha ds alpha beta mu = spec_gamma ds alpha beta / spec_sq_norm mu"

text \<open>New \<open>beta\<close>: \<open>n - gamma\<close> divided by the sum of squared residuals.\<close>

definition spec_fixed_point_beta ::
    "mat \<Rightarrow> vec \<Rightarrow> vec \<Rightarrow> real \<Rightarrow> real \<Rightarrow> vec \<Rightarrow> real" where
  "spec_fixed_point_beta X Y ds alpha beta mu =
     (real (length X) - spec_gamma ds alpha beta) / spec_rss X Y mu"

text \<open>
  The log-evidence score: \<open>(m/2) log alpha + (n/2) log beta\<close> minus half the sum over
  the singular values of \<open>log (beta d\<^sup>2 + alpha)\<close>, minus \<open>alpha/2\<close> times the squared
  norm of the mean, minus \<open>beta/2\<close> times the sum of squared residuals.
\<close>

definition spec_log_evidence ::
    "nat \<Rightarrow> nat \<Rightarrow> vec \<Rightarrow> real \<Rightarrow> real \<Rightarrow> real \<Rightarrow> real \<Rightarrow> real" where
  "spec_log_evidence n m ds alpha beta sq_norm rss =
     real m / 2 * ln alpha + real n / 2 * ln beta
       - 1 / 2 * (\<Sum>i<length ds. ln (beta * (ds ! i) ^ 2 + alpha))
       - alpha / 2 * sq_norm - beta / 2 * rss"

subsection \<open>The posterior precision\<close>

text \<open>\<open>beta\<close> times \<open>X\<^sup>t X\<close>, plus \<open>alpha\<close> on the diagonal.\<close>

definition spec_precision :: "mat \<Rightarrow> real \<Rightarrow> real \<Rightarrow> mat" where
  "spec_precision X alpha beta =
     map (\<lambda>i. map (\<lambda>j. beta * (\<Sum>r<length X. X ! r ! i * X ! r ! j)
                          + (if i = j then alpha else 0)) [0..<ncols X]) [0..<ncols X]"

subsection \<open>The predictive distribution\<close>

text \<open>
  The data model of the specification names the right factor \<open>V\<close>: the \<open>m \<times> k\<close> matrix
  with design matrix \<open>= U diag(D) V\<^sup>t\<close>. \<^verbatim>\<open>np.linalg.svd\<close> returns the transpose of
  that matrix as its third array, which is what \<open>self_v\<close> holds; so \<open>V\<close> is the
  transpose of \<open>self_v\<close>.
\<close>

definition spec_V :: "model \<Rightarrow> mat" where
  "spec_V self = transpose (self_v self)"

text \<open>The weights \<open>1 / (d\<^sup>2 + alpha / beta)\<close>, one for each singular value.\<close>

definition precision_weights :: "vec \<Rightarrow> real \<Rightarrow> real \<Rightarrow> vec" where
  "precision_weights ds alpha beta = map (\<lambda>s. 1 / (s ^ 2 + alpha / beta)) ds"

text \<open>The entry \<open>(i, j)\<close> of \<open>V diag(g) V\<^sup>t\<close>.\<close>

definition S_posterior :: "mat \<Rightarrow> vec \<Rightarrow> nat \<Rightarrow> nat \<Rightarrow> real" where
  "S_posterior V g i j = (\<Sum>l<length g. V ! i ! l * g ! l * V ! j ! l)"

text \<open>The entry \<open>(i, j)\<close> of \<open>V\<^sup>t diag(g) V\<close>, the product as the specification writes it.\<close>

definition S_claimed :: "mat \<Rightarrow> vec \<Rightarrow> nat \<Rightarrow> nat \<Rightarrow> real" where
  "S_claimed V g i j = (\<Sum>l<length g. V ! l ! i * g ! l * V ! l ! j)"

text \<open>The predictive mean of a query row: the row times the posterior mean.\<close>

definition spec_pred_mean :: "vec \<Rightarrow> vec \<Rightarrow> real" where
  "spec_pred_mean w x = (\<Sum>j<length w. x ! j * w ! j)"

text \<open>The predictive variance of a query row: \<open>(1 + x S x\<^sup>t) / beta\<close>.\<close>

definition spec_pred_var :: "(nat \<Rightarrow> nat \<Rightarrow> real) \<Rightarrow> real \<Rightarrow> vec \<Rightarrow> real" where
  "spec_pred_var S beta x =
     (1 + (\<Sum>i<length x. \<Sum>j<length x. x ! i * S i j * x ! j)) / beta"

section \<open>A small data set\<close>

text \<open>
  Four observations of two features. The centered design matrix has the singular values
  \<open>20\<close> and \<open>10\<close>; \<open>example_svd\<close> returns its factorization, as the routine does, and
  fails on any other matrix. \<open>example_model\<close> is the object the constructor builds.
\<close>

definition example_X :: mat where
  "example_X = [[12, 22], [0, 6], [20, 16], [8, 0]]"

definition example_Y :: vec where
  "example_Y = [5, 1, 2, 0]"

definition example_svd :: "mat \<Rightarrow> error + mat \<times> vec \<times> mat" where
  "example_svd A =
     (if A = [[2, 11], [-10, -5], [10, 5], [-2, -11]]
      then Inr ([[1 / 2, 1 / 2], [- 1 / 2, 1 / 2], [1 / 2, - 1 / 2], [- 1 / 2, - 1 / 2]],
                [20, 10], [[3 / 5, 4 / 5], [- 4 / 5, 3 / 5]])
      else Inl LinAlgError)"

definition example_model :: model where
  "example_model =
     \<lparr> self_X = [[2, 11], [-10, -5], [10, 5], [-2, -11]], self_mu_X = [10, 11],
       self_Y = [3, -1, 0, -2], self_mu_Y = 2, self_thresh = 1 / 100000,
       self_u = [[1 / 2, 1 / 2], [- 1 / 2, 1 / 2], [1 / 2, - 1 / 2], [- 1 / 2, - 1 / 2]],
       self_d = [20, 10], self_v = [[3 / 5, 4 / 5], [- 4 / 5, 3 / 5]],
       self_alpha = PyInt 0, self_beta = PyInt 0,
       self_w_mu = Num (PyInt 0), self_w_beta = Num (PyInt 0), self_diag = None \<rparr>"

section \<open>Auxiliary facts\<close>

subsection \<open>Errors\<close>

lemma bind_err_Inr [simp]: "bind_err (Inr a) f = f a"
  by (simp add: bind_err_def)

lemma bind_err_Inl [simp]: "bind_err (Inl e) f = Inl e"
  by (simp add: bind_err_def)

lemma bind_err_eq_Inl:
  "bind_err r f = Inl e \<longleftrightarrow> r = Inl e \<or> (\<exists>a. r = Inr a \<and> f a = Inl e)"
  by (cases r) simp_all

lemma dot_vv_error: "dot_vv a b = Inl e \<Longrightarrow> e = ValueError"
  by (simp add: dot_vv_def split: if_splits)

lemma dot_mv_error: "dot_mv A x = Inl e \<Longrightarrow> e = ValueError"
  by (simp add: dot_mv_def split: if_splits)

lemma dot_mm_error: "dot_mm A B = Inl e \<Longrightarrow> e = ValueError"
  by (simp add: dot_mm_def split: if_splits)

lemma np_sub_error: "np_sub a b = Inl e \<Longrightarrow> e = ValueError"
  by (simp add: np_sub_def split: if_splits)

lemma global_Y_error: "global_Y gY = Inl e \<Longrightarrow> e = NameError"
  by (simp add: global_Y_def split: option.splits)

lemma iter_mu_error:
  "iter_mu gY self alpha beta = Inl e \<Longrightarrow> e = ValueError \<or> e = NameError"
  by (auto simp: iter_mu_def bind_err_eq_Inl dest: dot_mm_error dot_mv_error global_Y_error)

lemma hyper_update_error:
  "hyper_update gY self method n m alpha beta d mu error = Inl e
     \<Longrightarrow> e = ValueError \<or> e = NameError"
  by (auto simp: hyper_update_def Let_def bind_err_eq_Inl
        dest: dot_vv_error dot_mv_error np_sub_error global_Y_error split: if_splits)

lemma log_like_of_error:
  "log_like_of n m alpha beta d mu error = Inl e
     \<Longrightarrow> e = ValueError \<or> e = UnboundLocalError"
  by (auto simp: log_like_of_def Let_def bind_err_eq_Inl dest: dot_vv_error split: option.splits)

lemma ea_iteration_error:
  "ea_iteration gY self method alpha beta error = Inl e
     \<Longrightarrow> e = ValueError \<or> e = NameError \<or> e = UnboundLocalError"
  by (auto simp: ea_iteration_def Let_def bind_err_eq_Inl
        dest: iter_mu_error hyper_update_error log_like_of_error)

text \<open>The loop raises only what one of its passes raises: induction on the passes left.\<close>

lemma ea_loop_error:
  "ea_loop k gY self method i alpha beta error log_likes = Inl e
     \<Longrightarrow> e = ValueError \<or> e = NameError \<or> e = UnboundLocalError"
proof (induction k arbitrary: i alpha beta error log_likes)
  case 0
  then show ?case by simp
next
  case (Suc k)
  show ?case
  proof (cases "ea_iteration gY self method alpha beta error")
    case (Inl e')
    with Suc.prems have "e' = e" by simp
    with Inl show ?thesis by (auto dest: ea_iteration_error)
  next
    case (Inr r)
    obtain a b er ll where r: "r = (a, b, er, ll)" by (cases r) auto
    from Suc.prems Inr r
    have "ea_loop k gY self method (Suc i) a b er (log_likes @ [ll]) = Inl e"
      by (simp add: Let_def split: if_splits)
    then show ?thesis by (rule Suc.IH)
  qed
qed

lemma evidence_approx_error:
  "evidence_approx gY rnd self max_iter method = Inl e
     \<Longrightarrow> e = ValueError \<or> e = NameError \<or> e = UnboundLocalError"
  by (auto simp: evidence_approx_def bind_err_eq_Inl dest: ea_loop_error)

text \<open>The class has no attribute of the name that \<open>fit\<close> calls.\<close>

lemma fit_unknown_attribute:
  "fit gY rnd self evidence_approx_method iterations = Inl AttributeError"
  by (simp add: fit_def call_method_def class_attributes_def instance_attributes_def
        split: option.splits)

lemma evidence_approx_first_pass_fails:
  assumes "0 < max_iter"
    and "ea_iteration gY self method (fst rnd) (snd rnd) None = Inl e"
  shows "evidence_approx gY rnd self max_iter method = Inl e"
proof -
  from assms(1) obtain k where "nat max_iter = Suc k"
    by (cases "nat max_iter") auto
  with assms(2) show ?thesis by (simp add: evidence_approx_def)
qed

lemma hyper_update_other_method:
  "method \<noteq> ''fixed-point'' \<Longrightarrow> method \<noteq> ''EM''
     \<Longrightarrow> hyper_update gY self method n m alpha beta d mu error = Inr (alpha, beta, error)"
  by (simp add: hyper_update_def)

text \<open>A loop that is allowed no pass stores the two random draws.\<close>

lemma evidence_approx_no_pass:
  "cap \<le> 0 \<Longrightarrow> evidence_approx gY rnd self cap method
     = Inr (self \<lparr> self_alpha := Float64 (fst rnd), self_beta := Float64 (snd rnd) \<rparr>)"
  by (simp add: evidence_approx_def case_prod_beta)

text \<open>Positive \<open>alpha\<close> and \<open>beta\<close> keep the denominators of lines 163 and 170 positive.\<close>

lemma positive_hyperparameters_guard:
  assumes "0 < alpha" and "0 < beta"
  shows "0 < s ^ 2 + alpha / beta" and "0 < beta * s ^ 2 + alpha" and "beta \<noteq> (0 :: real)"
proof -
  have "0 \<le> s ^ 2" by simp
  moreover have "0 < alpha / beta" using assms by simp
  ultimately show "0 < s ^ 2 + alpha / beta" by linarith
  have "0 \<le> beta * s ^ 2" using assms by simp
  then show "0 < beta * s ^ 2 + alpha" using assms by linarith
  show "beta \<noteq> 0" using assms by simp
qed

subsection \<open>Array operations as sums over indices\<close>

lemma has_shape_row: "has_shape A p q \<Longrightarrow> i < p \<Longrightarrow> length (A ! i) = q"
  by (simp add: has_shape_def list_all_length)

lemma has_shape_length: "has_shape A p q \<Longrightarrow> length A = p"
  by (simp add: has_shape_def)

lemma has_shape_map: "has_shape (map (\<lambda>i. map (f i) [0..<q]) [0..<p]) p q"
  by (simp add: has_shape_def list_all_iff)

lemma map_index_eq: "map (\<lambda>i. f (xs ! i)) [0..<length xs] = map f xs"
  by (rule nth_equalityI) simp_all

lemma sum_list_map_nth: "sum_list (map f xs) = (\<Sum>i<length xs. (f (xs ! i) :: real))"
  by (simp add: sum_list_sum_nth atLeast0LessThan)

lemma inner_sum:
  "length a = length b \<Longrightarrow> sum_list (map2 (*) a b) = (\<Sum>i<length a. a ! i * b ! i :: real)"
  by (simp add: sum_list_sum_nth atLeast0LessThan)

lemma dot_vv_sum:
  "length a = length b \<Longrightarrow> dot_vv a b = Inr (\<Sum>i<length a. a ! i * b ! i)"
  by (simp add: dot_vv_def inner_sum)

lemma dot_mv_sum:
  assumes "has_shape A p q" and "length x = q"
  shows "dot_mv A x = Inr (map (\<lambda>i. \<Sum>l<q. A ! i ! l * x ! l) [0..<p])"
proof -
  from assms have ok: "list_all (\<lambda>row. length row = length x) A"
    by (simp add: has_shape_def)
  have "map (\<lambda>row. sum_list (map2 (*) row x)) A = map (\<lambda>i. \<Sum>l<q. A ! i ! l * x ! l) [0..<p]"
  proof (rule nth_equalityI)
    show "length (map (\<lambda>row. sum_list (map2 (*) row x)) A)
            = length (map (\<lambda>i. \<Sum>l<q. A ! i ! l * x ! l) [0..<p])"
      using assms by (simp add: has_shape_def)
  next
    fix i assume "i < length (map (\<lambda>row. sum_list (map2 (*) row x)) A)"
    then have i: "i < p" using assms by (simp add: has_shape_def)
    then have "length (A ! i) = length x"
      using assms by (simp add: has_shape_row)
    then show "map (\<lambda>row. sum_list (map2 (*) row x)) A ! i
                 = map (\<lambda>i. \<Sum>l<q. A ! i ! l * x ! l) [0..<p] ! i"
      using i assms by (simp add: has_shape_def inner_sum)
  qed
  with ok show ?thesis by (simp add: dot_mv_def)
qed

lemma transpose_shape:
  assumes "has_shape A p q" and "0 < p"
  shows "transpose A = map (\<lambda>j. map (\<lambda>i. A ! i ! j) [0..<p]) [0..<q]"
proof -
  have "transpose A = map (\<lambda>i. map (\<lambda>j. A ! j ! i) [0..<length A]) [0..<q]"
  proof (rule transpose_rectangle)
    assume "A = []" with assms show "q = 0" by (simp add: has_shape_def)
  next
    fix i assume "i < length A"
    with assms show "length (A ! i) = q" by (simp add: has_shape_def list_all_length)
  qed
  with assms show ?thesis by (simp add: has_shape_def)
qed

lemma dot_mm_sum:
  assumes A: "has_shape A p q" and B: "has_shape B q r" and q: "0 < q"
  shows "dot_mm A B = Inr (map (\<lambda>i. map (\<lambda>j. \<Sum>l<q. A ! i ! l * B ! l ! j) [0..<r]) [0..<p])"
proof -
  from A B have ok: "list_all (\<lambda>row. length row = length B) A"
    by (simp add: has_shape_def)
  have tB: "transpose B = map (\<lambda>j. map (\<lambda>i. B ! i ! j) [0..<q]) [0..<r]"
    using B q by (rule transpose_shape)
  have "map (\<lambda>row. map (\<lambda>col. sum_list (map2 (*) row col)) (transpose B)) A
          = map (\<lambda>i. map (\<lambda>j. \<Sum>l<q. A ! i ! l * B ! l ! j) [0..<r]) [0..<p]"
  proof (rule nth_equalityI)
    show "length (map (\<lambda>row. map (\<lambda>col. sum_list (map2 (*) row col)) (transpose B)) A)
            = length (map (\<lambda>i. map (\<lambda>j. \<Sum>l<q. A ! i ! l * B ! l ! j) [0..<r]) [0..<p])"
      using A by (simp add: has_shape_def)
  next
    fix i
    assume "i < length (map (\<lambda>row. map (\<lambda>col. sum_list (map2 (*) row col)) (transpose B)) A)"
    then have i: "i < p" using A by (simp add: has_shape_def)
    then have len: "length (A ! i) = q" using A by (simp add: has_shape_row)
    have "map (\<lambda>col. sum_list (map2 (*) (A ! i) col)) (transpose B)
            = map (\<lambda>j. \<Sum>l<q. A ! i ! l * B ! l ! j) [0..<r]"
      using len by (simp add: tB inner_sum comp_def)
    then show "map (\<lambda>row. map (\<lambda>col. sum_list (map2 (*) row col)) (transpose B)) A ! i
                 = map (\<lambda>i. map (\<lambda>j. \<Sum>l<q. A ! i ! l * B ! l ! j) [0..<r]) [0..<p] ! i"
      using i A by (simp add: has_shape_def)
  qed
  with ok show ?thesis by (simp add: dot_mm_def)
qed

lemma has_shape_np_diag: "has_shape (np_diag g) (length g) (length g)"
  unfolding np_diag_def by (rule has_shape_map)

lemma np_diag_nth:
  "i < length g \<Longrightarrow> j < length g \<Longrightarrow> np_diag g ! i ! j = (if i = j then g ! i else 0)"
  by (simp add: np_diag_def)

subsection \<open>The fixed-point branch\<close>

lemma dot_self_sq_norm: "dot_vv mu mu = Inr (spec_sq_norm mu)"
  by (simp add: dot_vv_sum spec_sq_norm_def power2_eq_square)

text \<open>
  With a method string that is neither of the two, no branch assigns \<^verbatim>\<open>error\<close>: once
  the mean is computed, line 186 raises.
\<close>

lemma ea_iteration_other_method:
  assumes "method \<noteq> ''fixed-point''" and "method \<noteq> ''EM''"
  shows "ea_iteration gY self method alpha beta None
           = (case iter_mu gY self alpha beta of
                Inl e \<Rightarrow> Inl e | Inr mu \<Rightarrow> Inl UnboundLocalError)"
proof (cases "iter_mu gY self alpha beta")
  case (Inl e)
  then show ?thesis by (simp add: ea_iteration_def)
next
  case (Inr mu)
  then show ?thesis
    using assms
    by (simp add: ea_iteration_def hyper_update_other_method log_like_of_def dot_self_sq_norm)
qed

lemma sq_norm_residual: "spec_sq_norm (spec_residual X Y mu) = spec_rss X Y mu"
  by (simp add: spec_sq_norm_def spec_rss_def spec_residual_def)

lemma residual_of_model:
  assumes X: "has_shape X n (length mu)" and Y: "length Y = n"
  shows "bind_err (dot_mv X mu) (np_sub Y) = Inr (spec_residual X Y mu)"
proof -
  have n: "length X = n" using X by (rule has_shape_length)
  have Xmu: "dot_mv X mu = Inr (map (\<lambda>i. \<Sum>l<length mu. X ! i ! l * mu ! l) [0..<n])"
    using X refl by (rule dot_mv_sum)
  have "map2 (-) Y (map (\<lambda>i. \<Sum>l<length mu. X ! i ! l * mu ! l) [0..<n]) = spec_residual X Y mu"
    by (rule nth_equalityI) (simp_all add: spec_residual_def Y n)
  then show ?thesis
    by (simp add: Xmu np_sub_def Y)
qed

lemma hyper_update_fixed_point:
  assumes X: "has_shape (self_X self) n (length mu)" and Y: "length (self_Y self) = n"
  shows "hyper_update gY self ''fixed-point'' n m alpha beta (map (\<lambda>s. s ^ 2) ds) mu error
           = Inr (spec_fixed_point_alpha ds alpha beta mu,
                  spec_fixed_point_beta (self_X self) (self_Y self) ds alpha beta mu,
                  Some (spec_residual (self_X self) (self_Y self) mu))"
proof -
  have gamma: "sum_list (map (\<lambda>dd. beta * dd / (beta * dd + alpha)) (map (\<lambda>s. s ^ 2) ds))
                 = spec_gamma ds alpha beta"
    by (simp add: sum_list_map_nth spec_gamma_def comp_def)
  have n: "length (self_X self) = n" using X by (rule has_shape_length)
  from residual_of_model [OF X Y] obtain Xmu where
    Xmu: "dot_mv (self_X self) mu = Inr Xmu"
    and sub: "np_sub (self_Y self) Xmu = Inr (spec_residual (self_X self) (self_Y self) mu)"
    by (cases "dot_mv (self_X self) mu") simp_all
  show ?thesis
    unfolding hyper_update_def Let_def gamma
    by (simp add: dot_self_sq_norm Xmu sub sq_norm_residual
          spec_fixed_point_alpha_def spec_fixed_point_beta_def n)
qed

lemma log_like_of_bound:
  "log_like_of n m alpha beta (map (\<lambda>s. s ^ 2) ds) mu (Some (spec_residual X Y mu))
     = Inr (spec_log_evidence n m ds alpha beta (spec_sq_norm mu) (spec_rss X Y mu))"
  by (simp add: log_like_of_def dot_self_sq_norm sq_norm_residual spec_log_evidence_def
        sum_list_map_nth comp_def)

subsection \<open>The predictive variance\<close>

lemma var_rows_sum:
  assumes S: "S = map (\<lambda>i. map (\<lambda>j. Sf i j) [0..<m]) [0..<m]"
    and rows: "list_all (\<lambda>x. length x = m) xq"
  shows "var_rows S (Float64 b) xq = Inr (map (spec_pred_var Sf b) xq)"
  using rows
proof (induction xq)
  case Nil
  then show ?case by simp
next
  case (Cons u rest)
  then have len: "length u = m" and rest: "list_all (\<lambda>x. length x = m) rest"
    by simp_all
  have shape: "has_shape S m m"
    unfolding S by (rule has_shape_map)
  have Su: "dot_mv S u = Inr (map (\<lambda>i. \<Sum>l<m. Sf i l * u ! l) [0..<m])"
    using dot_mv_sum [OF shape len] by (simp add: S)
  have q: "dot_vv u (map (\<lambda>i. \<Sum>l<m. Sf i l * u ! l) [0..<m])
             = Inr (\<Sum>i<m. \<Sum>l<m. u ! i * Sf i l * u ! l)"
    using len by (simp add: dot_vv_sum sum_distrib_left mult.assoc)
  from Cons.IH [OF rest] Su q len show ?case
    by (simp add: spec_pred_var_def)
qed

text \<open>What line 127 computes from the stored array \<open>v\<close>: the matrix \<open>v\<^sup>t diag(g) v\<close>.\<close>

lemma posterior_S:
  assumes v: "has_shape v k m" and g: "length g = k" and k: "0 < k"
  shows "bind_err (dot_mm (transpose v) (np_diag g)) (\<lambda>t. dot_mm t v)
           = Inr (map (\<lambda>i. map (\<lambda>j. S_posterior (transpose v) g i j) [0..<m]) [0..<m])"
proof -
  let ?V = "transpose v"
  have V: "?V = map (\<lambda>j. map (\<lambda>i. v ! i ! j) [0..<k]) [0..<m]"
    using v k by (rule transpose_shape)
  have Vshape: "has_shape ?V m k"
    unfolding V by (rule has_shape_map)
  have Vnth: "?V ! i ! l = v ! l ! i" if "i < m" "l < k" for i l
    using that by (simp add: V)
  have dshape: "has_shape (np_diag g) k k"
    using has_shape_np_diag [of g] g by simp
  let ?t = "map (\<lambda>i. map (\<lambda>j. ?V ! i ! j * g ! j) [0..<k]) [0..<m]"
  have "dot_mm ?V (np_diag g)
          = Inr (map (\<lambda>i. map (\<lambda>j. \<Sum>l<k. ?V ! i ! l * np_diag g ! l ! j) [0..<k]) [0..<m])"
    using Vshape dshape k by (rule dot_mm_sum)
  also have "(map (\<lambda>i. map (\<lambda>j. \<Sum>l<k. ?V ! i ! l * np_diag g ! l ! j) [0..<k]) [0..<m]) = ?t"
  proof -
    have "(\<Sum>l<k. ?V ! i ! l * np_diag g ! l ! j) = ?V ! i ! j * g ! j" if "j < k" for i j
    proof -
      have "(\<Sum>l<k. ?V ! i ! l * np_diag g ! l ! j)
              = (\<Sum>l<k. if l = j then ?V ! i ! j * g ! j else 0)"
        using that g by (intro sum.cong) (auto simp: np_diag_nth)
      also have "\<dots> = ?V ! i ! j * g ! j"
        using that by (simp add: sum.delta)
      finally show ?thesis .
    qed
    then show ?thesis by simp
  qed
  finally have t: "dot_mm ?V (np_diag g) = Inr ?t" .
  have tshape: "has_shape ?t m k"
    by (rule has_shape_map)
  have "dot_mm ?t v = Inr (map (\<lambda>i. map (\<lambda>j. \<Sum>l<k. ?t ! i ! l * v ! l ! j) [0..<m]) [0..<m])"
    using tshape v k by (rule dot_mm_sum)
  also have "map (\<lambda>i. map (\<lambda>j. \<Sum>l<k. ?t ! i ! l * v ! l ! j) [0..<m]) [0..<m]
               = map (\<lambda>i. map (\<lambda>j. S_posterior ?V g i j) [0..<m]) [0..<m]"
  proof -
    have "(\<Sum>l<k. ?t ! i ! l * v ! l ! j) = S_posterior ?V g i j" if "i < m" "j < m" for i j
      unfolding S_posterior_def g
      using that by (intro sum.cong) (simp_all add: Vnth)
    then show ?thesis by simp
  qed
  finally show ?thesis using t by simp
qed

subsection \<open>The data set\<close>

lemmas array_defs =
  bind_err_def dot_vv_def dot_mv_def dot_mm_def np_diag_def np_sub_def np_mean_def
  ncols_def global_Y_def Let_def upt_rec

lemma init_example:
  "init example_svd example_X example_Y (1 / 100000) = Inr example_model"
  by (simp add: init_def example_svd_def example_X_def example_Y_def example_model_def
        center_mat_def center_vec_def array_defs)

text \<open>The three stored arrays do factorize the centered design matrix.\<close>

lemma example_is_factorization:
  "bind_err (dot_mm (self_u example_model) (np_diag (self_d example_model)))
     (\<lambda>ud. dot_mm ud (self_v example_model)) = Inr (self_X example_model)"
  by (simp add: example_model_def array_defs)

lemma example_iter_mu:
  "iter_mu (Some example_Y) example_model 1 1 = Inr [- 2780 / 40501, 9660 / 40501]"
  by (simp add: iter_mu_def example_model_def example_Y_def array_defs)

section \<open>Properties\<close>

subsection \<open>Fitting\<close>

text \<open>
  C1. The claim: for every constructed model, method string and iteration cap, \<open>fit\<close>
  runs the evidence approximation and then stores the posterior mean and precision, so
  that it completes without an exception on well-formed training data.

  The code does not: \<open>fit\<close> calls \<^verbatim>\<open>self._fixed_point_evidence_approx\<close>, a name
  that neither the class nor the instance defines (the method is named
  \<^verbatim>\<open>_evidence_approx\<close>), so the attribute lookup raises before anything runs. Here
  \<open>fit\<close> is evaluated on the model built from the data set, with its default arguments,
  as the script at the end of the module calls it.
\<close>

theorem fit_fails_on_main_data:
  "init example_svd example_X example_Y (1 / 100000) = Inr example_model \<and>
   fit (Some example_Y) (1 / 2, 1 / 4) example_model fit_default_method fit_default_iterations
     = Inl AttributeError"
  using init_example fit_unknown_attribute by simp

text \<open>
  C6. The claim: for every method string other than \<^verbatim>\<open>"EM"\<close> and
  \<^verbatim>\<open>"fixed-point"\<close>, \<open>fit\<close> fails with \<open>InvalidArgument\<close>.

  At the method \<^verbatim>\<open>"foo"\<close> the code raises other errors, or none: \<open>fit\<close> raises
  \<open>AttributeError\<close>, the loop itself raises \<open>UnboundLocalError\<close> in its first pass, and
  with no pass to make it returns normally.
\<close>

theorem unknown_method_example:
  "fit (Some example_Y) (1 / 2, 1 / 4) example_model ''foo'' 100 = Inl AttributeError \<and>
   evidence_approx (Some example_Y) (1 / 2, 1 / 4) example_model 1 ''foo''
     = Inl UnboundLocalError \<and>
   evidence_approx (Some example_Y) (1 / 2, 1 / 4) example_model 0 ''foo''
     = Inr (example_model \<lparr> self_alpha := Float64 (1 / 2), self_beta := Float64 (1 / 4) \<rparr>)"
  by (simp add: fit_unknown_attribute evidence_approx_def ea_iteration_def iter_mu_def
        hyper_update_def log_like_of_def example_model_def example_Y_def array_defs)

text \<open>
  C6, as amended. The method string is validated nowhere, so no call fails with
  \<open>InvalidArgument\<close>, whatever the string: neither \<open>fit\<close> nor the evidence-approximation
  loop. For a method string other than \<^verbatim>\<open>"EM"\<close> and \<^verbatim>\<open>"fixed-point"\<close> neither
  branch of the if/elif runs, which leaves \<open>alpha\<close>, \<open>beta\<close> and the unassigned local
  \<^verbatim>\<open>error\<close> as they were; so every first pass of the loop fails: with the error of
  computing the mean if that fails, and otherwise with \<open>UnboundLocalError\<close> at line 186.
  The loop therefore fails whenever the iteration cap allows a pass, and returns the two
  random draws when it allows none.
\<close>

theorem method_never_validated:
  "fit gY rnd self method iterations \<noteq> Inl InvalidArgument \<and>
   evidence_approx gY rnd self max_iter method \<noteq> Inl InvalidArgument \<and>
   (method \<noteq> ''fixed-point'' \<and> method \<noteq> ''EM'' \<longrightarrow>
      hyper_update gY self method n m alpha beta d mu error = Inr (alpha, beta, error) \<and>
      ea_iteration gY self method alpha beta None
        = (case iter_mu gY self alpha beta of
             Inl e \<Rightarrow> Inl e | Inr mu' \<Rightarrow> Inl UnboundLocalError) \<and>
      (0 < max_iter \<longrightarrow>
         evidence_approx gY rnd self max_iter method
           = (case iter_mu gY self (fst rnd) (snd rnd) of
                Inl e \<Rightarrow> Inl e | Inr mu' \<Rightarrow> Inl UnboundLocalError)) \<and>
      (cap \<le> 0 \<longrightarrow>
         evidence_approx gY rnd self cap method
           = Inr (self \<lparr> self_alpha := Float64 (fst rnd), self_beta := Float64 (snd rnd) \<rparr>)))"
proof -
  have never: "evidence_approx gY rnd self max_iter method \<noteq> Inl InvalidArgument"
    by (auto dest: evidence_approx_error)
  have loop: "evidence_approx gY rnd self max_iter method
                = (case iter_mu gY self (fst rnd) (snd rnd) of
                     Inl e \<Rightarrow> Inl e | Inr mu' \<Rightarrow> Inl UnboundLocalError)"
    if other: "method \<noteq> ''fixed-point''" "method \<noteq> ''EM''" and cap: "0 < max_iter"
  proof -
    obtain e where e: "ea_iteration gY self method (fst rnd) (snd rnd) None = Inl e"
      and e': "(case iter_mu gY self (fst rnd) (snd rnd) of
                  Inl e \<Rightarrow> Inl e | Inr mu' \<Rightarrow> Inl UnboundLocalError) = (Inl e :: error + model)"
      using ea_iteration_other_method [OF other, of gY self "fst rnd" "snd rnd"]
      by (cases "iter_mu gY self (fst rnd) (snd rnd)") simp_all
    from evidence_approx_first_pass_fails [OF cap e] e' show ?thesis by simp
  qed
  show ?thesis
    using never loop
    by (simp add: fit_unknown_attribute hyper_update_other_method ea_iteration_other_method
          evidence_approx_no_pass)
qed

theorem method_never_validated_witness:
  "''foo'' \<noteq> ''fixed-point'' \<and> ''foo'' \<noteq> ''EM'' \<and> (0 :: int) < 100 \<and> (0 :: int) \<le> 0 \<and>
   iter_mu (Some example_Y) example_model (1 / 2) (1 / 4) = Inr [- 230 / 3417, 270 / 1139] \<and>
   hyper_update (Some example_Y) example_model ''foo'' 4 2 (1 / 2) (1 / 4) [400, 100]
       [- 230 / 3417, 270 / 1139] None
     = Inr (1 / 2, 1 / 4, None) \<and>
   ea_iteration (Some example_Y) example_model ''foo'' (1 / 2) (1 / 4) None
     = Inl UnboundLocalError \<and>
   evidence_approx (Some example_Y) (1 / 2, 1 / 4) example_model 100 ''foo''
     = Inl UnboundLocalError \<and>
   evidence_approx (Some example_Y) (1 / 2, 1 / 4) example_model 0 ''foo''
     = Inr (example_model \<lparr> self_alpha := Float64 (1 / 2), self_beta := Float64 (1 / 4) \<rparr>)"
proof -
  have mu: "iter_mu (Some example_Y) example_model (1 / 2) (1 / 4)
              = Inr [- 230 / 3417, 270 / 1139]"
    by (simp add: iter_mu_def example_model_def example_Y_def array_defs)
  have other: "''foo'' \<noteq> ''fixed-point'' \<and> ''foo'' \<noteq> ''EM''"
    by simp
  have caps: "(0 :: int) < 100 \<and> (0 :: int) \<le> 0"
    by simp
  from method_never_validated [of "Some example_Y" "(1 / 2, 1 / 4)" example_model "''foo''" 100 100
      4 2 "1 / 2" "1 / 4" "[400, 100]" "[- 230 / 3417, 270 / 1139]" None 0]
  have "hyper_update (Some example_Y) example_model ''foo'' 4 2 (1 / 2) (1 / 4) [400, 100]
            [- 230 / 3417, 270 / 1139] None
          = Inr (1 / 2, 1 / 4, None) \<and>
        ea_iteration (Some example_Y) example_model ''foo'' (1 / 2) (1 / 4) None
          = Inl UnboundLocalError \<and>
        evidence_approx (Some example_Y) (1 / 2, 1 / 4) example_model 100 ''foo''
          = Inl UnboundLocalError \<and>
        evidence_approx (Some example_Y) (1 / 2, 1 / 4) example_model 0 ''foo''
          = Inr (example_model \<lparr> self_alpha := Float64 (1 / 2), self_beta := Float64 (1 / 4) \<rparr>)"
    using mu by simp
  with other caps mu show ?thesis
    by - (intro conjI; (elim conjE)?; assumption)
qed

subsection \<open>The evidence-approximation loop\<close>

text \<open>
  C2. The claim: in every pass of the loop the posterior mean, the residual sum of squares
  and the log-evidence are computed from the centered response stored in the model, not
  from an external or uncentered variable.

  The code reads the name \<^verbatim>\<open>Y\<close> (line 164, and line 181 in the EM branch) where
  the stored response is \<^verbatim>\<open>self.Y\<close>. Without a global of that name the first pass
  raises \<open>NameError\<close>. With one, the mean follows the global: replacing the stored
  response changes nothing, replacing the global changes the mean.
\<close>

theorem evidence_approx_reads_global_Y:
  "evidence_approx None (1 / 2, 1 / 4) example_model 1 ''fixed-point'' = Inl NameError \<and>
   iter_mu (Some (self_Y example_model)) example_model 1 1
     = Inr [- 2780 / 40501, 9660 / 40501] \<and>
   iter_mu (Some [1, 0, 0, 0]) example_model 1 1 = Inr [- 998 / 40501, 2011 / 40501] \<and>
   iter_mu (Some [1, 0, 0, 0]) (example_model \<lparr> self_Y := [0, 0, 0, 0] \<rparr>) 1 1
     = Inr [- 998 / 40501, 2011 / 40501]"
  by (simp add: evidence_approx_def ea_iteration_def iter_mu_def example_model_def array_defs)

text \<open>
  C7. In every pass of the fixed-point variant, given the current \<open>alpha\<close> and \<open>beta\<close> and
  the current posterior mean \<open>mu\<close>: \<open>gamma\<close> is the sum over the singular values \<open>d\<close> of
  \<open>(beta d\<^sup>2) / (beta d\<^sup>2 + alpha)\<close>, the new \<open>alpha\<close> is \<open>gamma\<close> divided by the squared
  norm of the mean, and the new \<open>beta\<close> is \<open>n - gamma\<close> divided by the sum of squared
  residuals between the stored centered response and the design matrix applied to the
  mean. The design matrix has one row for each entry of the response and one column for
  each entry of the mean. The current \<open>alpha\<close> and \<open>beta\<close> are positive, which keeps
  \<open>alpha / beta\<close> and the denominators of the mean and of \<open>gamma\<close> away from zero; the
  squared norm of the mean and the sum of squared residuals are not zero. The pass also
  binds the residual vector, and when the updated pair is positive, so that the
  logarithms are defined, its score is the log-evidence of the updated pair.
\<close>

theorem fixed_point_iteration:
  assumes mu: "iter_mu gY self alpha beta = Inr mu"
    and X: "has_shape (self_X self) (length (self_Y self)) (length mu)"
    and pos: "0 < alpha" "0 < beta"
    and nz: "spec_sq_norm mu \<noteq> 0"
            "spec_rss (self_X self) (self_Y self) mu \<noteq> 0"
  shows "\<exists>log_like.
           ea_iteration gY self ''fixed-point'' alpha beta error
             = Inr (spec_fixed_point_alpha (self_d self) alpha beta mu,
                    spec_fixed_point_beta (self_X self) (self_Y self) (self_d self) alpha beta mu,
                    Some (spec_residual (self_X self) (self_Y self) mu),
                    log_like) \<and>
           (0 < spec_fixed_point_alpha (self_d self) alpha beta mu \<and>
            0 < spec_fixed_point_beta (self_X self) (self_Y self) (self_d self) alpha beta mu
            \<longrightarrow>
            log_like
              = spec_log_evidence (length (self_X self)) (ncols (self_X self)) (self_d self)
                  (spec_fixed_point_alpha (self_d self) alpha beta mu)
                  (spec_fixed_point_beta (self_X self) (self_Y self) (self_d self) alpha beta mu)
                  (spec_sq_norm mu) (spec_rss (self_X self) (self_Y self) mu))"
proof -
  have n: "length (self_X self) = length (self_Y self)"
    using X by (rule has_shape_length)
  have X': "has_shape (self_X self) (length (self_X self)) (length mu)"
    using X n by simp
  have "ea_iteration gY self ''fixed-point'' alpha beta error
          = Inr (spec_fixed_point_alpha (self_d self) alpha beta mu,
                 spec_fixed_point_beta (self_X self) (self_Y self) (self_d self) alpha beta mu,
                 Some (spec_residual (self_X self) (self_Y self) mu),
                 spec_log_evidence (length (self_X self)) (ncols (self_X self)) (self_d self)
                   (spec_fixed_point_alpha (self_d self) alpha beta mu)
                   (spec_fixed_point_beta (self_X self) (self_Y self) (self_d self) alpha beta mu)
                   (spec_sq_norm mu) (spec_rss (self_X self) (self_Y self) mu))"
    by (simp add: ea_iteration_def mu hyper_update_fixed_point [OF X' n [symmetric]]
          log_like_of_bound)
  then show ?thesis by blast
qed

theorem fixed_point_iteration_witness:
  "iter_mu (Some example_Y) example_model 1 1 = Inr [- 2780 / 40501, 9660 / 40501] \<and>
   has_shape (self_X example_model) (length (self_Y example_model)) 2 \<and>
   (0 :: real) < 1 \<and>
   spec_sq_norm [- 2780 / 40501, 9660 / 40501] = 101044000 / 1640331001 \<and>
   spec_rss (self_X example_model) (self_Y example_model) [- 2780 / 40501, 9660 / 40501]
     = 1641066014 / 1640331001 \<and>
   spec_fixed_point_alpha (self_d example_model) 1 1 [- 2780 / 40501, 9660 / 40501]
     = 6520661 / 202088 \<and>
   spec_fixed_point_beta (self_X example_model) (self_Y example_model) (self_d example_model)
       1 1 [- 2780 / 40501, 9660 / 40501]
     = 1650496752 / 820533007 \<and>
   ea_iteration (Some example_Y) example_model ''fixed-point'' 1 1 None
     = Inr (6520661 / 202088, 1650496752 / 820533007,
            Some [20803 / 40501, - 20001 / 40501, - 20500 / 40501, 19698 / 40501],
            spec_log_evidence 4 2 [20, 10] (6520661 / 202088) (1650496752 / 820533007)
              (101044000 / 1640331001) (1641066014 / 1640331001))"
proof -
  let ?mu = "[- 2780 / 40501, 9660 / 40501] :: vec"
  have X: "has_shape (self_X example_model) (length (self_Y example_model)) (length ?mu)"
    by (simp add: has_shape_def example_model_def)
  have X2: "has_shape (self_X example_model) (length (self_Y example_model)) 2"
    by (simp add: has_shape_def example_model_def)
  have pos: "(0 :: real) < 1"
    by simp
  have sq: "spec_sq_norm ?mu = 101044000 / 1640331001"
    by (simp add: spec_sq_norm_def lessThan_Suc power2_eq_square)
  have rss: "spec_rss (self_X example_model) (self_Y example_model) ?mu
               = 1641066014 / 1640331001"
    by (simp add: spec_rss_def example_model_def lessThan_Suc power2_eq_square)
  have res: "spec_residual (self_X example_model) (self_Y example_model) ?mu
               = [20803 / 40501, - 20001 / 40501, - 20500 / 40501, 19698 / 40501]"
    by (simp add: spec_residual_def example_model_def lessThan_Suc upt_rec)
  have gam: "spec_gamma (self_d example_model) 1 1 = 80500 / 40501"
    by (simp add: spec_gamma_def example_model_def lessThan_Suc)
  have a: "spec_fixed_point_alpha (self_d example_model) 1 1 ?mu = 6520661 / 202088"
    unfolding spec_fixed_point_alpha_def gam sq by simp
  have n: "real (length (self_X example_model)) = 4"
    by (simp add: example_model_def)
  have b: "spec_fixed_point_beta (self_X example_model) (self_Y example_model)
             (self_d example_model) 1 1 ?mu = 1650496752 / 820533007"
    unfolding spec_fixed_point_beta_def gam rss n by simp
  have nz2: "spec_sq_norm ?mu \<noteq> 0"
    unfolding sq by simp
  have nz3: "spec_rss (self_X example_model) (self_Y example_model) ?mu \<noteq> 0"
    unfolding rss by simp
  have shape: "length (self_X example_model) = 4" "ncols (self_X example_model) = 2"
    "self_d example_model = [20, 10]"
    by (simp_all add: example_model_def ncols_def)
  have "ea_iteration (Some example_Y) example_model ''fixed-point'' 1 1 None
     = Inr (6520661 / 202088, 1650496752 / 820533007,
            Some [20803 / 40501, - 20001 / 40501, - 20500 / 40501, 19698 / 40501],
            spec_log_evidence 4 2 [20, 10] (6520661 / 202088) (1650496752 / 820533007)
              (101044000 / 1640331001) (1641066014 / 1640331001))"
    using fixed_point_iteration [OF example_iter_mu X pos pos nz2 nz3, of None]
    unfolding a b sq rss res
    by (auto simp: shape)
  then show ?thesis
    using example_iter_mu X2 pos sq rss a b by - (intro conjI; assumption)
qed

text \<open>
  C8. The claim: in every pass of either variant the loop computes and records the
  log-evidence score, from the residuals of that pass's variant.

  In the EM variant the code names its residuals \<^verbatim>\<open>err\<close> (line 181) and then reads
  \<^verbatim>\<open>error\<close> (line 186), which only the fixed-point branch assigns: the first pass
  raises \<open>UnboundLocalError\<close> and no score is recorded.
\<close>

theorem em_pass_raises_UnboundLocalError:
  "evidence_approx (Some example_Y) (1 / 2, 1 / 4) example_model 100 ''EM''
     = Inl UnboundLocalError"
proof -
  have "ea_iteration (Some example_Y) example_model ''EM'' (1 / 2) (1 / 4) None
          = Inl UnboundLocalError"
    by (simp add: ea_iteration_def iter_mu_def hyper_update_def log_like_of_def
          example_model_def example_Y_def array_defs)
  then show ?thesis
    by (intro evidence_approx_first_pass_fails) simp_all
qed

subsection \<open>Posterior parameters\<close>

text \<open>
  C3. The claim: for positive \<open>alpha\<close> and \<open>beta\<close> the posterior-parameter computation
  returns the precision \<open>beta X\<^sup>t X + alpha I\<close>, with \<open>alpha\<close> on the diagonal only, and
  the mean \<open>V diag(d / (d\<^sup>2 + alpha / beta)) U\<^sup>t\<close> applied to the centered response.

  Line 87 adds the scalar \<open>alpha\<close> to the whole matrix, so every entry receives it. On
  the data set, with \<open>alpha = beta = 1\<close>, the code returns the off-diagonal entries
  \<open>145\<close> where the formula of the claim gives \<open>144\<close>.
\<close>

theorem weights_posterior_precision_example:
  "weights_posterior_params example_model (Float64 1) (Float64 1)
     = Inr (example_model \<lparr> self_diag := Some [20 / 401, 10 / 101] \<rparr>,
            [- 2780 / 40501, 9660 / 40501], [[209, 145], [145, 293]]) \<and>
   spec_precision (self_X example_model) 1 1 = [[209, 144], [144, 293]]"
  by (simp add: weights_posterior_params_def spec_precision_def example_model_def array_defs
        lessThan_Suc numeral_eq_Suc)

subsection \<open>Construction\<close>

text \<open>
  C4. The claim: for \<open>X\<close> and \<open>Y\<close> whose row counts disagree, constructing the model
  fails with \<open>ShapeError\<close>, before any factorization is attempted.

  The constructor compares no shapes. With four rows in \<open>X\<close> and three entries in \<open>Y\<close>
  it centers both, factorizes and returns a model.
\<close>

theorem init_accepts_mismatched_rows:
  "length example_X = 4 \<and> length [1, 2, 3 :: real] = 3 \<and>
   init example_svd example_X [1, 2, 3] (1 / 100000)
     = Inr (example_model \<lparr> self_Y := [-1, 0, 1], self_mu_Y := 2 \<rparr>)"
  by (simp add: init_def example_svd_def example_X_def example_model_def
        center_mat_def center_vec_def array_defs)

text \<open>
  C4, as amended. For every \<open>X\<close> and \<open>Y\<close>, whether their row counts agree or not,
  constructing the model fails exactly when the factorization of the centered \<open>X\<close> fails,
  and then with the error of the factorization.
\<close>

theorem init_fails_as_svd:
  "(init svd X Y thresh = Inl e) = (svd (fst (center_mat X)) = Inl e)"
  by (cases "svd (fst (center_mat X))")
     (auto simp: init_def Let_def split: prod.splits)

subsection \<open>Prediction\<close>

text \<open>
  C5. The claim: on a constructed model on which \<open>fit\<close> has not completed, \<open>predict\<close>
  fails with \<open>NotFittedError\<close>.

  On the model built from the data set it fails with \<open>ZeroDivisionError\<close>.
\<close>

theorem predict_unfitted_example:
  "init example_svd example_X example_Y (1 / 100000) = Inr example_model \<and>
   predict example_model [[1, 1]] (None :: vec option) = Inl ZeroDivisionError \<and>
   predict example_model [[1, 1]] (None :: vec option) \<noteq> Inl NotFittedError"
  using init_example
  by (simp add: predict_def pred_dist_params_def example_model_def)

text \<open>
  C5, as amended. On every model as the constructor returns it, \<open>predict\<close> fails with
  \<open>ZeroDivisionError\<close>, for every query matrix: the hyperparameters are still the
  integers \<open>0\<close> that the constructor stored, and line 126 divides one by the other.
\<close>

theorem predict_before_fit:
  assumes "init svd X Y thresh = Inr s"
  shows "predict s Xq y = Inl ZeroDivisionError"
proof -
  from assms have "self_alpha s = PyInt 0" "self_beta s = PyInt 0" "self_w_mu s = Num (PyInt 0)"
    by (auto simp: init_def Let_def bind_err_def split: prod.splits sum.splits)
  then show ?thesis
    by (simp add: predict_def pred_dist_params_def)
qed

theorem predict_before_fit_witness:
  "init example_svd example_X example_Y (1 / 100000) = Inr example_model \<and>
   predict example_model [[2, 3], [5, 7]] (Some example_Y) = Inl ZeroDivisionError"
  using init_example predict_before_fit [OF init_example, of "[[2, 3], [5, 7]]" "Some example_Y"]
  by simp

text \<open>
  C9. The claim: for a query matrix with rows \<open>x\<close> the predictive computation returns,
  in the order of the rows, the mean \<open>x\<close> times the posterior mean and the variance
  \<open>(1 + x S x\<^sup>t) / beta\<close> with \<open>S = V\<^sup>t diag(1 / (d\<^sup>2 + alpha / beta)) V\<close>.

  With \<open>V\<close> the right factor of the data model (design matrix \<open>= U diag(D) V\<^sup>t\<close>, which
  the first conjunct checks on the data set) the code computes another matrix: at the
  query row \<open>(1, 1)\<close> it returns the variance \<open>40715 / 40501\<close>, the formula of the claim
  gives \<open>41291 / 40501\<close>.
\<close>

theorem claimed_S_differs_example:
  "bind_err (dot_mm (self_u example_model) (np_diag (self_d example_model)))
     (\<lambda>ud. dot_mm ud (transpose (spec_V example_model))) = Inr (self_X example_model) \<and>
   pred_dist_params example_model (Float64 1) (Float64 1) [[1, 1]] (Arr1 [1, 2]) (Num (PyInt 0))
     = Inr (Arr1 [3], [40715 / 40501]) \<and>
   spec_pred_var (S_claimed (spec_V example_model)
                    (precision_weights (self_d example_model) 1 1)) 1 [1, 1]
     = 41291 / 40501"
  by (simp add: pred_dist_params_def spec_pred_var_def S_claimed_def spec_V_def
        precision_weights_def example_model_def array_defs lessThan_Suc)

text \<open>
  C9, as amended. For a query matrix with rows \<open>x\<close> the predictive computation returns,
  in the order of the rows, one mean \<open>x\<close> times the posterior mean and one variance
  \<open>(1 + x S x\<^sup>t) / beta\<close> for each row, with
  \<open>S = V diag(1 / (d\<^sup>2 + alpha / beta)) V\<^sup>t\<close> and \<open>V\<close> the right factor of the data
  model; in terms of the stored array \<open>v = V\<^sup>t\<close> this is \<open>v\<^sup>t diag(\<dots>) v\<close>. The stored
  array has one row for each singular value, of which there is at least one; its rows,
  the query rows and the posterior mean have the same length; no denominator is zero.
\<close>

theorem pred_dist_params_formula:
  assumes v: "has_shape (self_v self) (length (self_d self)) m"
    and k: "self_d self \<noteq> []"
    and xq: "list_all (\<lambda>x. length x = m) xq"
    and w: "length w = m"
    and nz: "b \<noteq> 0" "list_all (\<lambda>s. s ^ 2 + a / b \<noteq> 0) (self_d self)"
  shows "pred_dist_params self (Float64 a) (Float64 b) xq (Arr1 w) w_precision
           = Inr (Arr1 (map (spec_pred_mean w) xq),
                  map (spec_pred_var
                         (S_posterior (spec_V self) (precision_weights (self_d self) a b)) b) xq)"
proof -
  let ?g = "precision_weights (self_d self) a b"
  let ?S = "map (\<lambda>i. map (\<lambda>j. S_posterior (transpose (self_v self)) ?g i j) [0..<m]) [0..<m]"
  have mean: "dot_mv xq w = Inr (map (spec_pred_mean w) xq)"
  proof -
    have "has_shape xq (length xq) m" using xq by (simp add: has_shape_def)
    from dot_mv_sum [OF this w]
    have "dot_mv xq w = Inr (map (\<lambda>i. spec_pred_mean w (xq ! i)) [0..<length xq])"
      by (simp add: spec_pred_mean_def w)
    then show ?thesis by (simp only: map_index_eq)
  qed
  have g: "length ?g = length (self_d self)"
    by (simp add: precision_weights_def)
  from k have kpos: "0 < length (self_d self)" by simp
  from posterior_S [OF v g kpos] obtain t
    where t: "dot_mm (transpose (self_v self)) (np_diag ?g) = Inr t"
      and St: "dot_mm t (self_v self) = Inr ?S"
    by (cases "dot_mm (transpose (self_v self)) (np_diag ?g)") simp_all
  from t have t': "dot_mm (transpose (self_v self))
                     (np_diag (map (\<lambda>s. 1 / (s ^ 2 + a / b)) (self_d self))) = Inr t"
    by (simp add: precision_weights_def)
  have var: "var_rows ?S (Float64 b) xq
               = Inr (map (spec_pred_var (S_posterior (transpose (self_v self)) ?g) b) xq)"
    using refl xq by (rule var_rows_sum)
  show ?thesis
    by (simp add: pred_dist_params_def mean t' St var spec_V_def)
qed

theorem pred_dist_params_formula_witness:
  "has_shape (self_v example_model) (length (self_d example_model)) 2 \<and>
   self_d example_model \<noteq> [] \<and>
   list_all (\<lambda>x. length x = 2) [[1, 1], [1, 0], [2, - 1 :: real]] \<and>
   length [1, 2 :: real] = 2 \<and> (1 :: real) \<noteq> 0 \<and>
   list_all (\<lambda>s. s ^ 2 + 1 / 1 \<noteq> 0) (self_d example_model) \<and>
   pred_dist_params example_model (Float64 1) (Float64 1) [[1, 1], [1, 0], [2, - 1]]
       (Arr1 [1, 2]) (Num (PyInt 0))
     = Inr (Arr1 [3, 1, 0], [40715 / 40501, 40794 / 40501, 42458 / 40501])"
proof -
  have v: "has_shape (self_v example_model) (length (self_d example_model)) 2"
    by (simp add: has_shape_def example_model_def)
  have k: "self_d example_model \<noteq> []"
    by (simp add: example_model_def)
  have xq: "list_all (\<lambda>x. length x = 2) [[1, 1], [1, 0], [2, - 1 :: real]]"
    by simp
  have w: "length [1, 2 :: real] = 2"
    by simp
  have b: "(1 :: real) \<noteq> 0"
    by simp
  have d: "list_all (\<lambda>s. s ^ 2 + 1 / 1 \<noteq> 0) (self_d example_model)"
    by (simp add: example_model_def)
  have "pred_dist_params example_model (Float64 1) (Float64 1) [[1, 1], [1, 0], [2, - 1]]
          (Arr1 [1, 2]) (Num (PyInt 0))
        = Inr (Arr1 [3, 1, 0], [40715 / 40501, 40794 / 40501, 42458 / 40501])"
    using pred_dist_params_formula [OF v k xq w b d, of "Num (PyInt 0)"]
    by (simp add: spec_pred_mean_def spec_pred_var_def S_posterior_def spec_V_def
          precision_weights_def example_model_def lessThan_Suc)
  then show ?thesis
    using v k xq w b d by - (intro conjI; assumption)
qed

text \<open>
  C10. The second argument of \<open>predict\<close> has no effect: for every model, every query
  matrix and every two values of that argument the results are the same.
\<close>

theorem predict_ignores_Y: "predict self X y1 = predict self X y2"
  by (simp add: predict_def)

end
